theory Spec2Isabelle
  imports Complex_Main
begin

section \<open>Data model of \<open>gesture_recognition.py\<close>\<close>

text \<open>
  The enum \<open>GestureType\<close> (lines 24-34), in the order of the source, and the string
  each member carries as its \<open>value\<close>.
\<close>

datatype GestureType =
    NONE | FIST | OPEN_PALM | PEACE | THUMBS_UP | POINTING_UP
  | THREE_FINGERS | TWO_FINGERS | ONE_FINGER

fun gesture_value :: "GestureType \<Rightarrow> string" where
  "gesture_value NONE = ''none''"
| "gesture_value FIST = ''fist''"
| "gesture_value OPEN_PALM = ''open_palm''"
| "gesture_value PEACE = ''peace''"
| "gesture_value THUMBS_UP = ''thumbs_up''"
| "gesture_value POINTING_UP = ''pointing_up''"
| "gesture_value THREE_FINGERS = ''three_fingers''"
| "gesture_value TWO_FINGERS = ''two_fingers''"
| "gesture_value ONE_FINGER = ''one_finger''"

text \<open>
  The dataclass \<open>GestureCommand\<close> (lines 36-42). The field \<open>hand_type\<close> of the source is
  called \<open>cmd_hand_type\<close> here; it defaults to \<open>"both"\<close> and no table overrides it. The
  descriptions of the source are Chinese texts; the model carries an English rendering,
  since a description is only ever copied into a log line.
\<close>

record GestureCommand =
  gesture_type :: GestureType
  action :: string
  description :: string
  cmd_hand_type :: string

definition mk_command :: "GestureType \<Rightarrow> string \<Rightarrow> string \<Rightarrow> GestureCommand" where
  "mk_command g a d =
     \<lparr>gesture_type = g, action = a, description = d, cmd_hand_type = ''both''\<rparr>"

text \<open>
  The three command tables built in \<open>GestureController.__init__\<close> (lines 205-252). A
  dict keeps its insertion order, so each table is the list of its items in source
  order, and the lookup is \<open>map_of\<close> of that list (no key occurs twice).
\<close>

definition gesture_commands_items :: "(GestureType \<times> GestureCommand) list" where
  "gesture_commands_items =
     [(FIST, mk_command FIST ''close_all'' ''fist - turn all devices off''),
      (OPEN_PALM, mk_command OPEN_PALM ''open_all'' ''open palm - turn all devices on''),
      (PEACE, mk_command PEACE ''toggle_device'' ''V sign - toggle the device''),
      (THUMBS_UP, mk_command THUMBS_UP ''increase_brightness'' ''thumb up - brighter''),
      (POINTING_UP, mk_command POINTING_UP ''max_brightness''
         ''index finger up - full brightness'')]"

definition left_hand_commands_items :: "(GestureType \<times> GestureCommand) list" where
  "left_hand_commands_items =
     [(THUMBS_UP, mk_command THUMBS_UP ''decrease_brightness'' ''left thumb up - dimmer''),
      (POINTING_UP, mk_command POINTING_UP ''min_brightness''
         ''left index finger up - lowest brightness''),
      (THREE_FINGERS, mk_command THREE_FINGERS ''decrease_color_temp''
         ''left three fingers - warmer light''),
      (TWO_FINGERS, mk_command TWO_FINGERS ''set_warm_color_temp''
         ''left two fingers - warm colour temperature'')]"

definition right_hand_commands_items :: "(GestureType \<times> GestureCommand) list" where
  "right_hand_commands_items =
     [(THUMBS_UP, mk_command THUMBS_UP ''increase_brightness'' ''right thumb up - brighter''),
      (POINTING_UP, mk_command POINTING_UP ''max_brightness''
         ''right index finger up - full brightness''),
      (THREE_FINGERS, mk_command THREE_FINGERS ''increase_color_temp''
         ''right three fingers - cooler light''),
      (TWO_FINGERS, mk_command TWO_FINGERS ''set_cool_color_temp''
         ''right two fingers - cool colour temperature'')]"

definition gesture_commands :: "GestureType \<rightharpoonup> GestureCommand" where
  "gesture_commands = map_of gesture_commands_items"

definition left_hand_commands :: "GestureType \<rightharpoonup> GestureCommand" where
  "left_hand_commands = map_of left_hand_commands_items"

definition right_hand_commands :: "GestureType \<rightharpoonup> GestureCommand" where
  "right_hand_commands = map_of right_hand_commands_items"

section \<open>The gesture classifier\<close>

text \<open>
  A landmark is a point of the hand; only its \<open>x\<close> and \<open>y\<close> coordinates are read. The
  detector reports 21 landmarks per hand and the code reads the indices 3 to 20 only, so
  the landmark container is a function from the index. Coordinates are Python floats;
  they are only compared, and the model compares them as reals.
\<close>

record landmark =
  lm_x :: real
  lm_y :: real

type_synonym landmarks = "nat \<Rightarrow> landmark"

definition tip_ids :: "nat list" where
  "tip_ids = [4, 8, 12, 16, 20]"

definition pip_ids :: "nat list" where
  "pip_ids = [3, 6, 10, 14, 18]"

text \<open>
  \<open>MediaPipeHandDetector.get_finger_positions\<close> (lines 101-126): the thumb by its
  \<open>x\<close> coordinate against the joint before the tip, the four other fingers by the
  \<open>y\<close> coordinate of the tip against the PIP joint; the result is a list of 0 and 1.
\<close>

definition get_finger_positions :: "landmarks \<Rightarrow> int list" where
  "get_finger_positions lms =
     [if lm_x (lms (tip_ids ! 0)) > lm_x (lms (tip_ids ! 0 - 1)) then 1 else 0] @
     map (\<lambda>i. if lm_y (lms (tip_ids ! i)) < lm_y (lms (pip_ids ! i)) then 1 else 0)
       [1 ..< 5]"

text \<open>
  The body of \<open>GestureClassifier.classify_gesture\<close> after the finger list is computed
  (lines 157-181), with the branches in the order of the source. It is applied to lists
  of five entries only, the ones \<open>get_finger_positions\<close> returns.
\<close>

definition classify_fingers :: "int list \<Rightarrow> GestureType" where
  "classify_fingers fingers =
     (let fingers_up = sum_list fingers in
      if fingers_up = 0 then FIST
      else if fingers_up = 5 then OPEN_PALM
      else if fingers_up = 1 then
        (if fingers ! 1 = 1 then POINTING_UP
         else if fingers ! 0 = 1 then THUMBS_UP
         else ONE_FINGER)
      else if fingers_up = 2 then
        (if fingers ! 1 = 1 \<and> fingers ! 2 = 1 then PEACE else TWO_FINGERS)
      else if fingers_up = 3 then THREE_FINGERS
      else if fingers_up = 4 then NONE
      else NONE)"

definition classify_gesture :: "landmarks \<Rightarrow> GestureType" where
  "classify_gesture lms = classify_fingers (get_finger_positions lms)"

text \<open>
  The classification table as the specification words it: a finger vector is five
  booleans (thumb, index, middle, ring, pinky), classified by the number of extended
  fingers and then by the pattern.
\<close>

definition extended_count :: "bool list \<Rightarrow> nat" where
  "extended_count bs = length (filter (\<lambda>b. b) bs)"

definition classify_table :: "bool \<Rightarrow> bool \<Rightarrow> bool \<Rightarrow> bool \<Rightarrow> bool \<Rightarrow> GestureType" where
  "classify_table thumb index middle ring pinky =
     (let k = extended_count [thumb, index, middle, ring, pinky] in
      if k = 0 then FIST
      else if k = 5 then OPEN_PALM
      else if k = 1 \<and> index then POINTING_UP
      else if k = 1 \<and> thumb then THUMBS_UP
      else if k = 1 then ONE_FINGER
      else if k = 2 \<and> index \<and> middle then PEACE
      else if k = 2 then TWO_FINGERS
      else if k = 3 then THREE_FINGERS
      else NONE)"

definition finger_vector :: "bool \<Rightarrow> bool \<Rightarrow> bool \<Rightarrow> bool \<Rightarrow> bool \<Rightarrow> int list" where
  "finger_vector thumb index middle ring pinky =
     map (\<lambda>b. if b then 1 else 0) [thumb, index, middle, ring, pinky]"

section \<open>The controller\<close>

text \<open>
  What a callback does is outside the controller: it acts on the devices. The model
  takes the state of that outside world as a type parameter \<open>'w\<close>. A callback either
  returns, or raises an exception of class \<open>Exception\<close> (the class the handler at line
  457 catches) with a message; either way it leaves a world behind. Callbacks do not
  reach back into the controller.
\<close>

datatype 'w outcome = Returned 'w | Raised string 'w

type_synonym 'w callback = "'w \<Rightarrow> 'w outcome"

fun outcome_world :: "'w outcome \<Rightarrow> 'w" where
  "outcome_world (Returned w) = w"
| "outcome_world (Raised e w) = w"

text \<open>One constructor per logger call of the source, with the values it prints.\<close>

datatype log_entry =
    Log_registered string
  | Log_camera_unavailable
  | Log_started
  | Log_start_failed string
  | Log_executing string
  | Log_callback_error string
  | Log_registration_done

datatype cap_prop = CAP_PROP_FRAME_WIDTH | CAP_PROP_FRAME_HEIGHT | CAP_PROP_FPS

record VideoCapture =
  isOpened :: bool
  cap_settings :: "(cap_prop \<times> nat) list"

text \<open>
  The attributes of a \<open>GestureController\<close> (lines 186-196), followed by what lies
  outside the object: the world the callbacks act on, the lines logged so far, and
  \<open>trigger_trace\<close>, a ghost field that records every call of \<open>_execute_gesture\<close>
  with its arguments, in order. Time stamps are the floats of \<open>time.time()\<close>, taken as
  reals. \<open>display_thread\<close> tells whether the display thread was started.
\<close>

record 'w GestureController =
  gesture_callbacks :: "string \<rightharpoonup> 'w callback"
  last_gesture :: GestureType
  gesture_start_time :: real
  gesture_hold_duration :: real
  frame_count :: nat
  executed_gestures :: "GestureType set"
  running :: bool
  cap :: "VideoCapture option"
  display_thread :: bool
  world :: 'w
  logged :: "log_entry list"
  trigger_trace :: "(GestureType \<times> string) list"

definition init_controller :: "'w \<Rightarrow> 'w GestureController" where
  "init_controller w =
     \<lparr>gesture_callbacks = Map.empty, last_gesture = NONE, gesture_start_time = 0,
      gesture_hold_duration = 2, frame_count = 0, executed_gestures = {},
      running = False, cap = None, display_thread = False,
      world = w, logged = [], trigger_trace = []\<rparr>"

text \<open>\<open>register_gesture_callback\<close> (lines 289-292).\<close>

definition register_gesture_callback ::
  "string \<Rightarrow> 'w callback \<Rightarrow> 'w GestureController \<Rightarrow> 'w GestureController" where
  "register_gesture_callback gesture_key callback s =
     s\<lparr>gesture_callbacks := (gesture_callbacks s)(gesture_key \<mapsto> callback),
       logged := logged s @ [Log_registered gesture_key]\<rparr>"

subsection \<open>Resolution and dispatch: \<open>_execute_gesture\<close>\<close>

text \<open>
  The first half of \<open>_execute_gesture\<close> (lines 436-443): the command for a gesture and
  a hand type. The hand type is the string the frame loop passes: \<open>"left"\<close>,
  \<open>"right"\<close> or \<open>"unknown"\<close>.
\<close>

definition resolve_command :: "GestureType \<Rightarrow> string \<Rightarrow> GestureCommand option" where
  "resolve_command gesture hand_type =
     (if hand_type = ''left'' \<and> gesture \<in> dom left_hand_commands
        then left_hand_commands gesture
      else if hand_type = ''right'' \<and> gesture \<in> dom right_hand_commands
        then right_hand_commands gesture
      else if gesture \<in> dom gesture_commands then gesture_commands gesture
      else None)"

text \<open>
  The callback the second half looks up (lines 446-451): under the key made of the hand
  type, an underscore and the value of the gesture, and when there is none, under the
  action of the command.
\<close>

definition find_callback ::
  "'w GestureController \<Rightarrow> GestureCommand \<Rightarrow> GestureType \<Rightarrow> string \<Rightarrow> 'w callback option" where
  "find_callback s command gesture hand_type =
     (let gesture_key = hand_type @ ''_'' @ gesture_value gesture in
      case gesture_callbacks s gesture_key of
        Some callback \<Rightarrow> Some callback
      | None \<Rightarrow> gesture_callbacks s (action command))"

text \<open>
  The \<open>try\<close> block at lines 453-458: the line is logged, the callback is called once,
  and an exception it raises is logged and goes no further.
\<close>

definition call_callback ::
  "GestureCommand \<Rightarrow> 'w callback \<Rightarrow> 'w GestureController \<Rightarrow> 'w GestureController" where
  "call_callback command callback s =
     (let s1 = s\<lparr>logged := logged s @ [Log_executing (description command)]\<rparr> in
      case callback (world s1) of
        Returned w \<Rightarrow> s1\<lparr>world := w\<rparr>
      | Raised e w \<Rightarrow> s1\<lparr>world := w, logged := logged s1 @ [Log_callback_error e]\<rparr>)"

text \<open>The second half of \<open>_execute_gesture\<close> (lines 445-458).\<close>

definition dispatch_command ::
  "GestureCommand \<Rightarrow> GestureType \<Rightarrow> string \<Rightarrow> 'w GestureController \<Rightarrow> 'w GestureController" where
  "dispatch_command command gesture hand_type s =
     (case find_callback s command gesture hand_type of
        None \<Rightarrow> s
      | Some callback \<Rightarrow> call_callback command callback s)"

definition execute_gesture ::
  "GestureType \<Rightarrow> string \<Rightarrow> 'w GestureController \<Rightarrow> 'w GestureController" where
  "execute_gesture gesture hand_type s =
     (let s0 = s\<lparr>trigger_trace := trigger_trace s @ [(gesture, hand_type)]\<rparr> in
      case resolve_command gesture hand_type of
        None \<Rightarrow> s0
      | Some command \<Rightarrow> dispatch_command command gesture hand_type s0)"

subsection \<open>The hold tracker: \<open>_handle_gesture_logic\<close>\<close>

text \<open>
  \<open>_handle_gesture_logic\<close> (lines 413-431). The reading of the clock at line 415 is the
  argument \<open>current_time\<close>.
\<close>

definition handle_gesture_logic ::
  "real \<Rightarrow> GestureType \<Rightarrow> string \<Rightarrow> 'w GestureController \<Rightarrow> 'w GestureController" where
  "handle_gesture_logic current_time gesture hand_type s =
     (if gesture \<noteq> NONE \<and> gesture \<in> dom gesture_commands then
        (if gesture \<noteq> last_gesture s then
           s\<lparr>gesture_start_time := current_time, last_gesture := gesture,
             executed_gestures := executed_gestures s - {gesture}\<rparr>
         else if current_time - gesture_start_time s \<ge> gesture_hold_duration s then
           (if gesture \<notin> executed_gestures s then
              (let s1 = execute_gesture gesture hand_type s in
               s1\<lparr>executed_gestures := insert gesture (executed_gestures s1)\<rparr>)
            else s)
         else s)
      else s\<lparr>last_gesture := NONE\<rparr>)"

text \<open>
  A tick is what one frame feeds the tracker: the time, the gesture and the hand type.
  \<open>run_ticks\<close> feeds a list of ticks in order.
\<close>

type_synonym tick = "real \<times> GestureType \<times> string"

definition run_ticks :: "tick list \<Rightarrow> 'w GestureController \<Rightarrow> 'w GestureController" where
  "run_ticks ticks s = fold (\<lambda>(t, g, h). handle_gesture_logic t g h) ticks s"

text \<open>The ticks of one hold: the same gesture at each of the given times and hands.\<close>

definition hold_ticks :: "GestureType \<Rightarrow> (real \<times> string) list \<Rightarrow> tick list" where
  "hold_ticks g ths = map (\<lambda>(t, h). (t, g, h)) ths"

subsection \<open>The frame loop: \<open>process_frame\<close>\<close>

text \<open>
  What the detector reports for a frame: the landmarks of each hand and, beside them,
  the handedness label of each hand (\<open>classification[0].label\<close>). \<open>None\<close> for no hand is
  the empty list here: both fail the test at line 386.
\<close>

record detection =
  multi_hand_landmarks :: "landmarks list"
  multi_handedness :: "string list"

text \<open>
  The loop at lines 391-403 over the zipped lists. \<open>hand_type\<close> is assigned for every
  hand the loop reaches, before the gesture of that hand is looked at.
\<close>

fun scan_hands :: "(landmarks \<times> string) list \<Rightarrow> string \<Rightarrow> GestureType \<times> string" where
  "scan_hands [] hand_type = (NONE, hand_type)"
| "scan_hands ((hand_landmarks, hand_label) # rest) hand_type =
     (let hand_type' = (if hand_label = ''Left'' then ''left'' else ''right'');
          gesture = classify_gesture hand_landmarks
      in if gesture \<noteq> NONE then (gesture, hand_type') else scan_hands rest hand_type')"

definition select_gesture :: "detection \<Rightarrow> GestureType \<times> string" where
  "select_gesture results =
     (if multi_hand_landmarks results \<noteq> [] \<and> multi_handedness results \<noteq> []
      then scan_hands (zip (multi_hand_landmarks results) (multi_handedness results))
             ''unknown''
      else (NONE, ''unknown''))"

text \<open>
  \<open>process_frame\<close> (lines 369-411), given the time of the clock and what the detector
  found in the frame. Drawing changes the picture only and is left out.
\<close>

definition process_frame ::
  "real \<Rightarrow> detection \<Rightarrow> 'w GestureController \<Rightarrow> 'w GestureController" where
  "process_frame current_time results s =
     (let s1 = s\<lparr>frame_count := frame_count s + 1\<rparr>;
          (current_gesture, hand_type) = select_gesture results
      in handle_gesture_logic current_time current_gesture hand_type s1)"

subsection \<open>Starting a session: \<open>start\<close>\<close>

text \<open>
  \<open>start\<close> (lines 294-322). Opening the camera is outside the program: \<open>open_camera\<close>
  gives, for a camera index, either the exception the constructor raised (\<open>Inl\<close>) or
  the capture object, opened or not.
\<close>

definition start ::
  "(int \<Rightarrow> string + VideoCapture) \<Rightarrow> int \<Rightarrow> 'w GestureController
     \<Rightarrow> bool \<times> 'w GestureController" where
  "start open_camera camera_index s =
     (if running s then (True, s)
      else case open_camera camera_index of
        Inl e \<Rightarrow> (False, s\<lparr>logged := logged s @ [Log_start_failed e]\<rparr>)
      | Inr c \<Rightarrow>
          (let s1 = s\<lparr>cap := Some c\<rparr> in
           if \<not> isOpened c
           then (False, s1\<lparr>logged := logged s1 @ [Log_camera_unavailable]\<rparr>)
           else
             (True,
              s1\<lparr>cap := Some (c\<lparr>cap_settings := cap_settings c @
                      [(CAP_PROP_FRAME_WIDTH, 1280), (CAP_PROP_FRAME_HEIGHT, 720),
                       (CAP_PROP_FPS, 30)]\<rparr>),
                 running := True, display_thread := True,
                 logged := logged s1 @ [Log_started]\<rparr>)))"

subsection \<open>The two branches of the tracker that change the hold\<close>

text \<open>
  Names for two branches of \<open>_handle_gesture_logic\<close>, used to state what a tick does:
  \<open>reset_hold\<close> is the branch at lines 420-424 (a new gesture starts its hold) and
  \<open>fire\<close> the branch at lines 428-429 (the gesture is executed and recorded).
\<close>

definition reset_hold ::
  "real \<Rightarrow> GestureType \<Rightarrow> 'w GestureController \<Rightarrow> 'w GestureController" where
  "reset_hold t g s =
     s\<lparr>gesture_start_time := t, last_gesture := g,
       executed_gestures := executed_gestures s - {g}\<rparr>"

definition fire ::
  "GestureType \<Rightarrow> string \<Rightarrow> 'w GestureController \<Rightarrow> 'w GestureController" where
  "fire g h s =
     (let s1 = execute_gesture g h s in
      s1\<lparr>executed_gestures := insert g (executed_gestures s1)\<rparr>)"

text \<open>
  The invariant behind the executed set: it and the recorded calls hold keys of the
  generic table only.
\<close>

definition generic_only :: "'w GestureController \<Rightarrow> bool" where
  "generic_only s \<longleftrightarrow>
     executed_gestures s \<subseteq> dom gesture_commands
     \<and> fst ` set (trigger_trace s) \<subseteq> dom gesture_commands"

subsection \<open>Resolution as the specification words it\<close>

text \<open>
  The hand-specific table of a hand type (none for a hand type other than \<open>"left"\<close> and
  \<open>"right"\<close>), and the order of the specification: the hand-specific table if it has
  an entry for the label, else the generic table, else no command.
\<close>

definition hand_table :: "string \<Rightarrow> GestureType \<rightharpoonup> GestureCommand" where
  "hand_table hand_type =
     (if hand_type = ''left'' then left_hand_commands
      else if hand_type = ''right'' then right_hand_commands
      else Map.empty)"

definition resolve_by_precedence :: "GestureType \<Rightarrow> string \<Rightarrow> GestureCommand option" where
  "resolve_by_precedence gesture hand_type =
     (case hand_table hand_type gesture of
        Some command \<Rightarrow> Some command
      | None \<Rightarrow> gesture_commands gesture)"

section \<open>The callbacks the application registers (\<open>main_app.py\<close>)\<close>

text \<open>
  \<open>_register_gesture_callbacks\<close> (\<open>main_app.py\<close>, lines 433-553), run on a fresh
  controller before \<open>start\<close>. \<open>create\<close> is \<open>create_device_callback\<close>: the callback that
  performs an action on the devices. The four loops register, in this order: the left
  table under \<open>left_<value>\<close>, the right table under \<open>right_<value>\<close>, the generic
  table under both hand prefixes except where the hand has its own entry, and the
  generic table under the bare value of the gesture.
\<close>

definition app_register_gesture_callbacks ::
  "(string \<Rightarrow> 'w callback) \<Rightarrow> 'w GestureController \<Rightarrow> 'w GestureController" where
  "app_register_gesture_callbacks create s =
     (let s1 = fold (\<lambda>(gesture_type, command).
                  register_gesture_callback (''left_'' @ gesture_value gesture_type)
                    (create (action command)))
                left_hand_commands_items s;
          s2 = fold (\<lambda>(gesture_type, command).
                  register_gesture_callback (''right_'' @ gesture_value gesture_type)
                    (create (action command)))
                right_hand_commands_items s1;
          s3 = fold (\<lambda>hand.
                  fold (\<lambda>(gesture_type, command) s'.
                    if (hand = ''left'' \<and> gesture_type \<in> dom left_hand_commands)
                       \<or> (hand = ''right'' \<and> gesture_type \<in> dom right_hand_commands)
                    then s'
                    else register_gesture_callback (hand @ ''_'' @ gesture_value gesture_type)
                           (create (action command)) s')
                  gesture_commands_items)
                [''left'', ''right''] s2;
          s4 = fold (\<lambda>(gesture_type, command).
                  register_gesture_callback (gesture_value gesture_type)
                    (create (action command)))
                gesture_commands_items s3
      in s4\<lparr>logged := logged s4 @ [Log_registration_done]\<rparr>)"

section \<open>Properties of the classifier\<close>

lemma get_finger_positions_vector:
  "get_finger_positions lms =
     finger_vector (lm_x (lms 4) > lm_x (lms 3)) (lm_y (lms 8) < lm_y (lms 6))
       (lm_y (lms 12) < lm_y (lms 10)) (lm_y (lms 16) < lm_y (lms 14))
       (lm_y (lms 20) < lm_y (lms 18))"
proof -
  have "[1 ..< 5] = [1, 2, 3, Suc 3]"
    by (simp add: upt_rec)
  then show ?thesis
    by (simp add: get_finger_positions_def finger_vector_def tip_ids_def pip_ids_def)
qed

text \<open>
  Claim C3. The classifier is a total function of the finger vector: on each of the 32
  vectors of five booleans it returns the one label of the specification's table (no
  finger FIST, five OPEN_PALM, index alone POINTING_UP, thumb alone THUMBS_UP, any other
  single finger ONE_FINGER, index and middle PEACE, any other pair TWO_FINGERS, three
  fingers THREE_FINGERS, four fingers NONE), and on landmarks it returns the label of the
  vector the geometry computes.
\<close>

theorem classify_gesture_table:
  "classify_fingers (finger_vector thumb index middle ring pinky) =
     classify_table thumb index middle ring pinky
   \<and> classify_gesture lms =
     classify_table (lm_x (lms 4) > lm_x (lms 3)) (lm_y (lms 8) < lm_y (lms 6))
       (lm_y (lms 12) < lm_y (lms 10)) (lm_y (lms 16) < lm_y (lms 14))
       (lm_y (lms 20) < lm_y (lms 18))"
proof -
  have table: "classify_fingers (finger_vector t i m r p) = classify_table t i m r p"
    for t i m r p
    by (cases t; cases i; cases m; cases r; cases p)
       (simp_all add: classify_fingers_def finger_vector_def classify_table_def
          extended_count_def)
  show ?thesis
    unfolding classify_gesture_def get_finger_positions_vector
    by (simp add: table)
qed

section \<open>The command tables\<close>

lemma dom_gesture_commands:
  "dom gesture_commands = {FIST, OPEN_PALM, PEACE, THUMBS_UP, POINTING_UP}"
  by (auto simp: gesture_commands_def gesture_commands_items_def split: if_splits)

lemma dom_left_hand_commands:
  "dom left_hand_commands = {THUMBS_UP, POINTING_UP, THREE_FINGERS, TWO_FINGERS}"
  by (auto simp: left_hand_commands_def left_hand_commands_items_def split: if_splits)

lemma dom_right_hand_commands:
  "dom right_hand_commands = {THUMBS_UP, POINTING_UP, THREE_FINGERS, TWO_FINGERS}"
  by (auto simp: right_hand_commands_def right_hand_commands_items_def split: if_splits)

lemma NONE_not_generic: "NONE \<notin> dom gesture_commands"
  by (simp add: dom_gesture_commands)

section \<open>The hold tracker\<close>

text \<open>Executing a gesture leaves the fields of the tracker alone and records one call.\<close>

lemma dispatch_command_tracker:
  "last_gesture (dispatch_command c g h s) = last_gesture s"
  "gesture_start_time (dispatch_command c g h s) = gesture_start_time s"
  "gesture_hold_duration (dispatch_command c g h s) = gesture_hold_duration s"
  "executed_gestures (dispatch_command c g h s) = executed_gestures s"
  "trigger_trace (dispatch_command c g h s) = trigger_trace s"
  "gesture_callbacks (dispatch_command c g h s) = gesture_callbacks s"
  by (simp_all add: dispatch_command_def call_callback_def Let_def
      split: option.splits outcome.splits)

lemma execute_gesture_tracker:
  "last_gesture (execute_gesture g h s) = last_gesture s"
  "gesture_start_time (execute_gesture g h s) = gesture_start_time s"
  "gesture_hold_duration (execute_gesture g h s) = gesture_hold_duration s"
  "executed_gestures (execute_gesture g h s) = executed_gestures s"
  "gesture_callbacks (execute_gesture g h s) = gesture_callbacks s"
  "trigger_trace (execute_gesture g h s) = trigger_trace s @ [(g, h)]"
  by (simp_all add: execute_gesture_def Let_def dispatch_command_tracker split: option.splits)

lemma run_ticks_Nil: "run_ticks [] s = s"
  by (simp add: run_ticks_def)

lemma run_ticks_Cons: "run_ticks ((t, g, h) # ticks) s = run_ticks ticks (handle_gesture_logic t g h s)"
  by (simp add: run_ticks_def)

lemma run_ticks_append: "run_ticks (xs @ ys) s = run_ticks ys (run_ticks xs s)"
  by (simp add: run_ticks_def)

lemma hold_ticks_simps:
  "hold_ticks g [] = []"
  "hold_ticks g ((t, h) # ths) = (t, g, h) # hold_ticks g ths"
  by (simp_all add: hold_ticks_def)

text \<open>One tick, branch by branch.\<close>

lemma handle_same_done:
  "last_gesture s = g \<Longrightarrow> g \<in> dom gesture_commands \<Longrightarrow> g \<in> executed_gestures s
    \<Longrightarrow> handle_gesture_logic t g h s = s"
  by (simp add: handle_gesture_logic_def)

lemma handle_same_early:
  "last_gesture s = g \<Longrightarrow> g \<in> dom gesture_commands
    \<Longrightarrow> t - gesture_start_time s < gesture_hold_duration s
    \<Longrightarrow> handle_gesture_logic t g h s = s"
  by (simp add: handle_gesture_logic_def)

lemma handle_same_fire:
  "last_gesture s = g \<Longrightarrow> g \<in> dom gesture_commands \<Longrightarrow> g \<notin> executed_gestures s
    \<Longrightarrow> gesture_hold_duration s \<le> t - gesture_start_time s
    \<Longrightarrow> handle_gesture_logic t g h s = fire g h s"
  using NONE_not_generic by (auto simp add: handle_gesture_logic_def fire_def)

lemma handle_change:
  "g \<in> dom gesture_commands \<Longrightarrow> g \<noteq> last_gesture s
    \<Longrightarrow> handle_gesture_logic t g h s =
        s\<lparr>gesture_start_time := t, last_gesture := g,
          executed_gestures := executed_gestures s - {g}\<rparr>"
  using NONE_not_generic by (auto simp add: handle_gesture_logic_def)

lemma handle_other:
  "g \<notin> dom gesture_commands \<Longrightarrow> handle_gesture_logic t g h s = s\<lparr>last_gesture := NONE\<rparr>"
  by (simp add: handle_gesture_logic_def)

lemma fire_tracker:
  "last_gesture (fire g h s) = last_gesture s"
  "gesture_start_time (fire g h s) = gesture_start_time s"
  "gesture_hold_duration (fire g h s) = gesture_hold_duration s"
  "executed_gestures (fire g h s) = insert g (executed_gestures s)"
  "trigger_trace (fire g h s) = trigger_trace s @ [(g, h)]"
  by (simp_all add: fire_def Let_def execute_gesture_tracker)

text \<open>
  A hold: ticks that observe the gesture the tracker already follows. Once the gesture is
  recorded as executed nothing changes any more; before that, the first tick whose time
  reaches the hold duration fires, with the hand of that tick.
\<close>

lemma hold_done:
  "last_gesture s = g \<Longrightarrow> g \<in> dom gesture_commands \<Longrightarrow> g \<in> executed_gestures s
    \<Longrightarrow> run_ticks (hold_ticks g ths) s = s"
proof (induction ths)
  case Nil
  show ?case by (simp add: hold_ticks_simps run_ticks_Nil)
next
  case (Cons th ths)
  obtain t h where th: "th = (t, h)" by (cases th)
  have "handle_gesture_logic t g h s = s"
    using Cons.prems by (simp add: handle_same_done)
  then show ?case
    using Cons by (simp add: th hold_ticks_simps run_ticks_Cons)
qed

lemma hold_run:
  assumes "last_gesture s = g" "g \<in> dom gesture_commands" "g \<notin> executed_gestures s"
  shows "run_ticks (hold_ticks g ths) s =
     (case find (\<lambda>(t, h). gesture_hold_duration s \<le> t - gesture_start_time s) ths of
        None \<Rightarrow> s
      | Some (t, h) \<Rightarrow> fire g h s)"
proof (induction ths)
  case Nil
  show ?case by (simp add: hold_ticks_simps run_ticks_Nil)
next
  case (Cons th ths)
  obtain t h where th: "th = (t, h)" by (cases th)
  show ?case
  proof (cases "gesture_hold_duration s \<le> t - gesture_start_time s")
    case True
    have "handle_gesture_logic t g h s = fire g h s"
      using assms True by (simp add: handle_same_fire)
    moreover have "run_ticks (hold_ticks g ths) (fire g h s) = fire g h s"
      using assms by (intro hold_done) (simp_all add: fire_tracker)
    ultimately show ?thesis
      using True by (simp add: th hold_ticks_simps run_ticks_Cons)
  next
    case False
    then have "handle_gesture_logic t g h s = s"
      using assms by (simp add: handle_same_early)
    then show ?thesis
      using False Cons.IH by (simp add: th hold_ticks_simps run_ticks_Cons)
  qed
qed


lemma handle_reset:
  "g \<in> dom gesture_commands \<Longrightarrow> g \<noteq> last_gesture s
    \<Longrightarrow> handle_gesture_logic t g h s = reset_hold t g s"
  by (simp add: handle_change reset_hold_def)

lemma reset_hold_fields:
  "last_gesture (reset_hold t g s) = g"
  "gesture_start_time (reset_hold t g s) = t"
  "gesture_hold_duration (reset_hold t g s) = gesture_hold_duration s"
  "executed_gestures (reset_hold t g s) = executed_gestures s - {g}"
  "trigger_trace (reset_hold t g s) = trigger_trace s"
  by (simp_all add: reset_hold_def)

lemma hold_start:
  assumes "g \<in> dom gesture_commands" "last_gesture s \<noteq> g"
  shows "run_ticks (hold_ticks g ((t0, h0) # ths)) s =
     (case find (\<lambda>(t, h). gesture_hold_duration s \<le> t - t0) ths of
        None \<Rightarrow> reset_hold t0 g s
      | Some (t, h) \<Rightarrow> fire g h (reset_hold t0 g s))"
proof -
  have step: "handle_gesture_logic t0 g h0 s = reset_hold t0 g s"
    using assms by (simp add: handle_reset)
  have "run_ticks (hold_ticks g ths) (reset_hold t0 g s) =
     (case find (\<lambda>(t, h). gesture_hold_duration (reset_hold t0 g s)
                   \<le> t - gesture_start_time (reset_hold t0 g s)) ths of
        None \<Rightarrow> reset_hold t0 g s
      | Some (t, h) \<Rightarrow> fire g h (reset_hold t0 g s))"
    using assms by (intro hold_run) (simp_all add: reset_hold_fields)
  then show ?thesis
    by (simp add: hold_ticks_simps run_ticks_Cons step reset_hold_fields)
qed

lemma find_fixed_hand_None:
  "\<forall>t \<in> set ts. \<not> P t \<Longrightarrow> find (\<lambda>(t, h). P t) (map (\<lambda>t. (t, h0)) ts) = None"
  by (induction ts) auto

lemma find_fixed_hand_Some:
  "\<exists>t \<in> set ts. P t \<Longrightarrow> \<exists>t. find (\<lambda>(t, h). P t) (map (\<lambda>t. (t, h0)) ts) = Some (t, h0)"
  by (induction ts) auto

text \<open>
  The hold of a generic gesture. Let \<open>g\<close> be a key of the generic command table, let
  the tracker follow another gesture, and let the ticks at the times \<open>t0\<close> and then
  \<open>ts\<close> all observe \<open>g\<close> on hand \<open>h\<close>. If every tick comes less than the hold
  duration after \<open>t0\<close>, no call of \<open>_execute_gesture\<close> is made. If some tick comes at
  least the hold duration after \<open>t0\<close>, exactly one call is made, with \<open>(g, h)\<close>,
  however many ticks there are.
\<close>

lemma generic_hold_triggers_once:
  assumes "g \<in> dom gesture_commands" and "last_gesture s \<noteq> g"
  shows "((\<forall>t \<in> set ts. t - t0 < gesture_hold_duration s) \<longrightarrow>
            trigger_trace (run_ticks (hold_ticks g ((t0, h) # map (\<lambda>t. (t, h)) ts)) s)
              = trigger_trace s)
       \<and> ((\<exists>t \<in> set ts. gesture_hold_duration s \<le> t - t0) \<longrightarrow>
            trigger_trace (run_ticks (hold_ticks g ((t0, h) # map (\<lambda>t. (t, h)) ts)) s)
              = trigger_trace s @ [(g, h)])"
proof (intro conjI impI)
  assume "\<forall>t \<in> set ts. t - t0 < gesture_hold_duration s"
  then have "\<forall>t \<in> set ts. \<not> gesture_hold_duration s \<le> t - t0"
    by auto
  then have "find (\<lambda>(t, h). gesture_hold_duration s \<le> t - t0) (map (\<lambda>t. (t, h)) ts) = None"
    by (rule find_fixed_hand_None)
  then show "trigger_trace (run_ticks (hold_ticks g ((t0, h) # map (\<lambda>t. (t, h)) ts)) s)
      = trigger_trace s"
    by (simp add: hold_start [OF assms] reset_hold_fields)
next
  assume "\<exists>t \<in> set ts. gesture_hold_duration s \<le> t - t0"
  then obtain t where
    "find (\<lambda>(t, h). gesture_hold_duration s \<le> t - t0) (map (\<lambda>t. (t, h)) ts) = Some (t, h)"
    using find_fixed_hand_Some [of ts "\<lambda>t. gesture_hold_duration s \<le> t - t0" h] by blast
  then show "trigger_trace (run_ticks (hold_ticks g ((t0, h) # map (\<lambda>t. (t, h)) ts)) s)
      = trigger_trace s @ [(g, h)]"
    by (simp add: hold_start [OF assms] fire_tracker reset_hold_fields)
qed

lemma generic_hold_triggers_once_example:
  "FIST \<in> dom gesture_commands \<and> last_gesture (init_controller ()) \<noteq> FIST
   \<and> trigger_trace (run_ticks (hold_ticks FIST
        ((0, ''left'') # map (\<lambda>t. (t, ''left'')) [1 / 2, 1, 3 / 2]))
        (init_controller ())) = []
   \<and> trigger_trace (run_ticks (hold_ticks FIST
        ((0, ''left'') # map (\<lambda>t. (t, ''left'')) [1, 2, 5 / 2, 3]))
        (init_controller ())) = [(FIST, ''left'')]"
proof -
  have a: "FIST \<in> dom gesture_commands"
    by (simp add: dom_gesture_commands)
  have b: "last_gesture (init_controller ()) \<noteq> FIST"
    by (simp add: init_controller_def)
  show ?thesis
    using a b generic_hold_triggers_once [OF a b, of "[1 / 2, 1, 3 / 2]" 0 "''left''"]
      generic_hold_triggers_once [OF a b, of "[1, 2, 5 / 2, 3]" 0 "''left''"]
    by (simp add: init_controller_def)
qed

section \<open>Changes of gesture\<close>

lemma handle_NONE: "handle_gesture_logic t NONE h s = s\<lparr>last_gesture := NONE\<rparr>"
  by (simp add: handle_gesture_logic_def)






section \<open>Firing again after NONE\<close>

lemma none_ticks:
  "nones \<noteq> [] \<Longrightarrow> run_ticks (hold_ticks NONE nones) s = s\<lparr>last_gesture := NONE\<rparr>"
proof (induction nones arbitrary: s)
  case Nil
  then show ?case by simp
next
  case (Cons th nones)
  obtain t h where th: "th = (t, h)" by (cases th)
  show ?case
  proof (cases "nones = []")
    case True
    then show ?thesis
      by (simp add: th hold_ticks_simps run_ticks_Cons run_ticks_Nil handle_NONE)
  next
    case False
    then show ?thesis
      using Cons.IH [of "s\<lparr>last_gesture := NONE\<rparr>"]
      by (simp add: th hold_ticks_simps run_ticks_Cons handle_NONE)
  qed
qed

text \<open>
  Claim C5. Let \<open>g\<close> have fired: the tracker follows \<open>g\<close>, a key of the generic table,
  and \<open>g\<close> is in the executed set. After one or more ticks that observe NONE, ticks that
  observe \<open>g\<close> from time \<open>t0\<close> on, one of them at least the hold duration after
  \<open>t0\<close>, make exactly one more call of \<open>_execute_gesture\<close>, for \<open>g\<close>.
\<close>

theorem retrigger_after_none:
  assumes "g \<in> dom gesture_commands" and "last_gesture s = g"
    and "g \<in> executed_gestures s" and "nones \<noteq> []"
    and "\<exists>t \<in> set ts. gesture_hold_duration s \<le> t - t0"
  shows "trigger_trace (run_ticks
           (hold_ticks NONE nones @ hold_ticks g ((t0, h) # map (\<lambda>t. (t, h)) ts)) s)
         = trigger_trace s @ [(g, h)]"
proof -
  define s1 where "s1 = s\<lparr>last_gesture := NONE\<rparr>"
  have idle: "run_ticks (hold_ticks NONE nones) s = s1"
    using assms(4) by (simp add: none_ticks s1_def)
  have "g \<noteq> NONE"
    using assms(1) NONE_not_generic by auto
  then have changed: "last_gesture s1 \<noteq> g"
    by (simp add: s1_def)
  obtain t where
    "find (\<lambda>(t, h). gesture_hold_duration s1 \<le> t - t0) (map (\<lambda>t. (t, h)) ts) = Some (t, h)"
    using assms(5) find_fixed_hand_Some [of ts "\<lambda>t. gesture_hold_duration s1 \<le> t - t0" h]
    by (auto simp: s1_def)
  then have "trigger_trace (run_ticks (hold_ticks g ((t0, h) # map (\<lambda>t. (t, h)) ts)) s1)
      = trigger_trace s1 @ [(g, h)]"
    by (simp add: hold_start [OF assms(1) changed] fire_tracker reset_hold_fields)
  then show ?thesis
    by (simp add: run_ticks_append idle) (simp add: s1_def)
qed

text \<open>Facts for evaluating the model on concrete inputs.\<close>

lemma commands_apply:
  "gesture_commands g = map_of gesture_commands_items g"
  "left_hand_commands g = map_of left_hand_commands_items g"
  "right_hand_commands g = map_of right_hand_commands_items g"
  by (simp_all add: gesture_commands_def left_hand_commands_def right_hand_commands_def)

lemmas tables_eval =
  commands_apply gesture_commands_items_def left_hand_commands_items_def
  right_hand_commands_items_def dom_gesture_commands dom_left_hand_commands
  dom_right_hand_commands mk_command_def

lemmas tracker_eval =
  hold_ticks_def run_ticks_def handle_gesture_logic_def execute_gesture_def
  resolve_command_def dispatch_command_def call_callback_def find_callback_def
  init_controller_def Let_def

lemma first_fist_hold:
  "run_ticks (hold_ticks FIST [(0, ''left''), (2, ''left'')]) (init_controller ()) =
     (init_controller ())\<lparr>last_gesture := FIST, executed_gestures := {FIST},
        trigger_trace := [(FIST, ''left'')]\<rparr>"
  by (simp add: tracker_eval tables_eval)

theorem retrigger_after_none_witness:
  "FIST \<in> dom gesture_commands
   \<and> last_gesture (run_ticks (hold_ticks FIST [(0, ''left''), (2, ''left'')])
        (init_controller ())) = FIST
   \<and> FIST \<in> executed_gestures (run_ticks (hold_ticks FIST [(0, ''left''), (2, ''left'')])
        (init_controller ()))
   \<and> trigger_trace (run_ticks (hold_ticks FIST [(0, ''left''), (2, ''left'')])
        (init_controller ())) = [(FIST, ''left'')]
   \<and> trigger_trace (run_ticks
        (hold_ticks NONE [(3, ''unknown'')] @
         hold_ticks FIST ((4, ''right'') # map (\<lambda>t. (t, ''right'')) [5, 6]))
        (run_ticks (hold_ticks FIST [(0, ''left''), (2, ''left'')]) (init_controller ())))
       = [(FIST, ''left''), (FIST, ''right'')]"
proof -
  let ?s = "run_ticks (hold_ticks FIST [(0, ''left''), (2, ''left'')]) (init_controller ())"
  have a: "FIST \<in> dom gesture_commands"
    by (simp add: dom_gesture_commands)
  have b: "last_gesture ?s = FIST" and c: "FIST \<in> executed_gestures ?s"
    and d: "trigger_trace ?s = [(FIST, ''left'')]"
    and e: "gesture_hold_duration ?s = 2"
    unfolding first_fist_hold by (simp_all add: init_controller_def)
  have f: "[(3::real, ''unknown'')] \<noteq> []"
    by simp
  have g: "\<exists>t \<in> set [5, 6]. gesture_hold_duration ?s \<le> t - 4"
    by (simp add: e)
  show ?thesis
    using a b c d retrigger_after_none [OF a b c f g, of "''right''"]
    by simp
qed


section \<open>Gestures outside the generic table\<close>

lemma other_ticks:
  "g \<notin> dom gesture_commands \<Longrightarrow> ths \<noteq> []
    \<Longrightarrow> run_ticks (hold_ticks g ths) s = s\<lparr>last_gesture := NONE\<rparr>"
proof (induction ths arbitrary: s)
  case Nil
  then show ?case by simp
next
  case (Cons th ths)
  obtain t h where th: "th = (t, h)" by (cases th)
  show ?case
  proof (cases "ths = []")
    case True
    then show ?thesis
      using Cons.prems(1)
      by (simp add: th hold_ticks_simps run_ticks_Cons run_ticks_Nil handle_other)
  next
    case False
    then show ?thesis
      using Cons.IH [of "s\<lparr>last_gesture := NONE\<rparr>"] Cons.prems(1)
      by (simp add: th hold_ticks_simps run_ticks_Cons handle_other)
  qed
qed

lemma handle_cases:
  "handle_gesture_logic t g h s = s
   \<or> handle_gesture_logic t g h s = s\<lparr>last_gesture := NONE\<rparr>
   \<or> (g \<in> dom gesture_commands \<and> handle_gesture_logic t g h s = reset_hold t g s)
   \<or> (g \<in> dom gesture_commands \<and> handle_gesture_logic t g h s = fire g h s)"
  by (auto simp add: handle_gesture_logic_def reset_hold_def fire_def Let_def)

lemma generic_only_handle:
  assumes "generic_only s"
  shows "generic_only (handle_gesture_logic t g h s)"
  using handle_cases [of t g h s] assms
  by (auto simp add: generic_only_def reset_hold_fields fire_tracker image_subset_iff)

lemma generic_only_run:
  "generic_only s \<Longrightarrow> generic_only (run_ticks ticks s)"
proof (induction ticks arbitrary: s)
  case Nil
  then show ?case by (simp add: run_ticks_Nil)
next
  case (Cons tk ticks)
  obtain t g h where tk: "tk = (t, g, h)" by (cases tk)
  show ?case
    using Cons by (simp add: tk run_ticks_Cons generic_only_handle)
qed

text \<open>
  Claim C9. From a state whose executed set and recorded calls hold generic keys only (a
  fresh controller has none), every run of ticks leaves the executed set and the
  gestures of the recorded calls inside the key set of the generic table. A tick that
  observes a gesture outside the generic table, on any hand, only sets \<open>last_gesture\<close>
  to NONE: the start time, the executed set, the world, the log and the recorded calls
  stay as they were, and so it is for a whole hold of such a gesture. ONE_FINGER,
  TWO_FINGERS and THREE_FINGERS are outside the generic table.
\<close>

theorem executed_only_generic:
  assumes "executed_gestures s \<subseteq> dom gesture_commands"
    and "fst ` set (trigger_trace s) \<subseteq> dom gesture_commands"
  shows "executed_gestures (run_ticks ticks s) \<subseteq> dom gesture_commands
       \<and> fst ` set (trigger_trace (run_ticks ticks s)) \<subseteq> dom gesture_commands
       \<and> (g \<notin> dom gesture_commands \<longrightarrow>
            handle_gesture_logic t g h s = s\<lparr>last_gesture := NONE\<rparr>)
       \<and> (g \<notin> dom gesture_commands \<and> ths \<noteq> [] \<longrightarrow>
            run_ticks (hold_ticks g ths) s = s\<lparr>last_gesture := NONE\<rparr>)
       \<and> ONE_FINGER \<notin> dom gesture_commands
       \<and> TWO_FINGERS \<notin> dom gesture_commands
       \<and> THREE_FINGERS \<notin> dom gesture_commands"
proof -
  have "generic_only s"
    using assms by (simp add: generic_only_def)
  then have "generic_only (run_ticks ticks s)"
    by (rule generic_only_run)
  then show ?thesis
    using handle_other [of g t h s] other_ticks [of g ths s]
    by (simp add: generic_only_def dom_gesture_commands)
qed

theorem executed_only_generic_witness:
  "executed_gestures (init_controller ()) \<subseteq> dom gesture_commands
   \<and> fst ` set (trigger_trace (init_controller ())) \<subseteq> dom gesture_commands
   \<and> THREE_FINGERS \<notin> dom gesture_commands
   \<and> [(0::real, ''left''), (5, ''left'')] \<noteq> []
   \<and> executed_gestures (run_ticks
        [(0, THREE_FINGERS, ''left''), (3, THREE_FINGERS, ''left''), (4, FIST, ''right''),
         (7, FIST, ''right'')] (init_controller ())) \<subseteq> dom gesture_commands
   \<and> fst ` set (trigger_trace (run_ticks
        [(0, THREE_FINGERS, ''left''), (3, THREE_FINGERS, ''left''), (4, FIST, ''right''),
         (7, FIST, ''right'')] (init_controller ()))) \<subseteq> dom gesture_commands
   \<and> handle_gesture_logic 0 THREE_FINGERS ''left'' (init_controller ()) =
       (init_controller ())\<lparr>last_gesture := NONE\<rparr>
   \<and> run_ticks (hold_ticks THREE_FINGERS [(0, ''left''), (5, ''left'')]) (init_controller ())
       = (init_controller ())\<lparr>last_gesture := NONE\<rparr>"
proof -
  have a: "executed_gestures (init_controller ()) \<subseteq> dom gesture_commands"
    and b: "fst ` set (trigger_trace (init_controller ())) \<subseteq> dom gesture_commands"
    by (simp_all add: init_controller_def)
  have c: "THREE_FINGERS \<notin> dom gesture_commands"
    by (simp add: dom_gesture_commands)
  show ?thesis
    using a b c
      executed_only_generic [OF a b, of
        "[(0, THREE_FINGERS, ''left''), (3, THREE_FINGERS, ''left''), (4, FIST, ''right''),
          (7, FIST, ''right'')]" THREE_FINGERS 0 "''left''" "[(0, ''left''), (5, ''left'')]"]
    by simp
qed

section \<open>The frame loop\<close>

lemma scan_hands_find:
  "scan_hands hands hand_type =
     (case find (\<lambda>(lms, label). classify_gesture lms \<noteq> NONE) hands of
        Some (lms, label) \<Rightarrow>
          (classify_gesture lms, if label = ''Left'' then ''left'' else ''right'')
      | None \<Rightarrow>
          (NONE, if hands = [] then hand_type
                 else if snd (last hands) = ''Left'' then ''left'' else ''right''))"
proof (induction hands arbitrary: hand_type)
  case Nil
  show ?case by simp
next
  case (Cons hand hands)
  obtain lms label where hand: "hand = (lms, label)" by (cases hand)
  show ?case
    by (cases "hands = []") (simp_all add: hand Cons.IH Let_def)
qed

text \<open>
  Claim C6, as amended. The pair a frame feeds the tracker is decided by the first
  detected hand whose gesture is not NONE: the pair is that gesture with the side of that
  hand. If no detected hand has a gesture, the gesture is NONE, and the hand type is
  \<open>"unknown"\<close> when no hand was detected and otherwise the side of the last detected
  hand. \<open>process_frame\<close> counts the frame and hands this one pair to the hold tracker.
\<close>

theorem select_first_gesturing_hand:
  "select_gesture results =
     (let hands = zip (multi_hand_landmarks results) (multi_handedness results) in
      case find (\<lambda>(lms, label). classify_gesture lms \<noteq> NONE) hands of
        Some (lms, label) \<Rightarrow>
          (classify_gesture lms, if label = ''Left'' then ''left'' else ''right'')
      | None \<Rightarrow>
          (NONE, if hands = [] then ''unknown''
                 else if snd (last hands) = ''Left'' then ''left'' else ''right''))
   \<and> process_frame t results s =
       handle_gesture_logic t (fst (select_gesture results)) (snd (select_gesture results))
         (s\<lparr>frame_count := frame_count s + 1\<rparr>)"
proof -
  have "zip (multi_hand_landmarks results) (multi_handedness results) = []"
    if "multi_hand_landmarks results = [] \<or> multi_handedness results = []"
    using that by auto
  then show ?thesis
    by (auto simp add: select_gesture_def scan_hands_find process_frame_def Let_def
        split: prod.splits)
qed

theorem select_first_gesturing_hand_witness:
  "select_gesture
     \<lparr>multi_hand_landmarks =
        [\<lambda>i. \<lparr>lm_x = 0, lm_y = (if i \<in> {8, 12, 16, 20} then 0 else 1)\<rparr>,
         \<lambda>i. \<lparr>lm_x = 0, lm_y = 0\<rparr>,
         \<lambda>i. \<lparr>lm_x = 0, lm_y = (if i = 8 then 0 else 1)\<rparr>],
      multi_handedness = [''Left'', ''Right'', ''Left'']\<rparr> = (FIST, ''right'')
   \<and> select_gesture \<lparr>multi_hand_landmarks = [], multi_handedness = []\<rparr>
       = (NONE, ''unknown'')"
  using select_first_gesturing_hand [of
      "\<lparr>multi_hand_landmarks =
        [\<lambda>i. \<lparr>lm_x = 0, lm_y = (if i \<in> {8, 12, 16, 20} then 0 else 1)\<rparr>,
         \<lambda>i. \<lparr>lm_x = 0, lm_y = 0\<rparr>,
         \<lambda>i. \<lparr>lm_x = 0, lm_y = (if i = 8 then 0 else 1)\<rparr>],
      multi_handedness = [''Left'', ''Right'', ''Left'']\<rparr>" 0 "init_controller ()"]
    select_first_gesturing_hand [of
      "\<lparr>multi_hand_landmarks = [], multi_handedness = []\<rparr>" 0 "init_controller ()"]
  by (simp add: classify_gesture_def get_finger_positions_vector finger_vector_def
      classify_fingers_def)

text \<open>
  The claim as stated fails when a hand is detected and has no gesture: a single left
  hand with four fingers extended gives the pair NONE with hand type \<open>"left"\<close>, not
  \<open>"unknown"\<close>.
\<close>

theorem idle_hand_counterexample:
  "classify_gesture (\<lambda>i. \<lparr>lm_x = 0, lm_y = (if i \<in> {8, 12, 16, 20} then 0 else 1)\<rparr>) = NONE
   \<and> select_gesture
       \<lparr>multi_hand_landmarks =
          [\<lambda>i. \<lparr>lm_x = 0, lm_y = (if i \<in> {8, 12, 16, 20} then 0 else 1)\<rparr>],
        multi_handedness = [''Left'']\<rparr> = (NONE, ''left'')
   \<and> ''left'' \<noteq> ''unknown''"
  by (simp add: select_gesture_def classify_gesture_def get_finger_positions_vector
      finger_vector_def classify_fingers_def)

section \<open>The dispatcher\<close>

lemma execute_gesture_resolved:
  "resolve_command g h = Some c \<Longrightarrow>
     execute_gesture g h s =
       dispatch_command c g h (s\<lparr>trigger_trace := trigger_trace s @ [(g, h)]\<rparr>)"
  by (simp add: execute_gesture_def)

text \<open>
  Claim C7, as amended. For a trigger of gesture \<open>g\<close> on hand type \<open>h\<close> with resolved
  command \<open>c\<close>, the callback is looked up first under the key made of \<open>h\<close>, an
  underscore and the value of \<open>g\<close>, and only if that key is absent under the action of
  \<open>c\<close>. The first callback found is called, once and at once: the world afterwards is
  the one that call leaves. If neither key is registered the state is unchanged.
\<close>

theorem dispatch_lookup_order:
  "(gesture_callbacks s (h @ ''_'' @ gesture_value g) = Some cb \<longrightarrow>
      dispatch_command c g h s = call_callback c cb s
      \<and> world (dispatch_command c g h s) = outcome_world (cb (world s)))
   \<and> (gesture_callbacks s (h @ ''_'' @ gesture_value g) = None
        \<and> gesture_callbacks s (action c) = Some cb \<longrightarrow>
      dispatch_command c g h s = call_callback c cb s
      \<and> world (dispatch_command c g h s) = outcome_world (cb (world s)))
   \<and> (gesture_callbacks s (h @ ''_'' @ gesture_value g) = None
        \<and> gesture_callbacks s (action c) = None \<longrightarrow>
      dispatch_command c g h s = s)
   \<and> (resolve_command g h = Some c \<longrightarrow>
      execute_gesture g h s =
        dispatch_command c g h (s\<lparr>trigger_trace := trigger_trace s @ [(g, h)]\<rparr>))"
  by (auto simp add: dispatch_command_def find_callback_def call_callback_def Let_def
      execute_gesture_def split: outcome.splits)


theorem dispatch_lookup_order_witness:
  "gesture_callbacks
      ((init_controller ([] :: string list))\<lparr>gesture_callbacks :=
         [''left_thumbs_up'' \<mapsto> (\<lambda>w. Returned (w @ [''by hand key''])),
          ''decrease_brightness'' \<mapsto> (\<lambda>w. Returned (w @ [''by action'']))]\<rparr>)
      (''left'' @ ''_'' @ gesture_value THUMBS_UP)
     = Some (\<lambda>w. Returned (w @ [''by hand key'']))
   \<and> world (dispatch_command
        (mk_command THUMBS_UP ''decrease_brightness'' ''left thumb up - dimmer'')
        THUMBS_UP ''left''
        ((init_controller ([] :: string list))\<lparr>gesture_callbacks :=
           [''left_thumbs_up'' \<mapsto> (\<lambda>w. Returned (w @ [''by hand key''])),
            ''decrease_brightness'' \<mapsto> (\<lambda>w. Returned (w @ [''by action'']))]\<rparr>))
     = [''by hand key'']
   \<and> world (dispatch_command
        (mk_command THUMBS_UP ''decrease_brightness'' ''left thumb up - dimmer'')
        THUMBS_UP ''left''
        ((init_controller ([] :: string list))\<lparr>gesture_callbacks :=
           [''decrease_brightness'' \<mapsto> (\<lambda>w. Returned (w @ [''by action'']))]\<rparr>))
     = [''by action'']
   \<and> dispatch_command
        (mk_command THUMBS_UP ''decrease_brightness'' ''left thumb up - dimmer'')
        THUMBS_UP ''left'' (init_controller ([] :: string list))
     = init_controller ([] :: string list)
   \<and> resolve_command THUMBS_UP ''left''
     = Some (mk_command THUMBS_UP ''decrease_brightness'' ''left thumb up - dimmer'')"
proof -
  let ?c = "mk_command THUMBS_UP ''decrease_brightness'' ''left thumb up - dimmer''"
  let ?hand = "\<lambda>w. Returned (w @ [''by hand key''])"
  let ?act = "\<lambda>w. Returned (w @ [''by action''])"
  let ?s2 = "(init_controller ([] :: string list))\<lparr>gesture_callbacks :=
         [''left_thumbs_up'' \<mapsto> ?hand, ''decrease_brightness'' \<mapsto> ?act]\<rparr>"
  let ?s1 = "(init_controller ([] :: string list))\<lparr>gesture_callbacks :=
         [''decrease_brightness'' \<mapsto> ?act]\<rparr>"
  have a: "gesture_callbacks ?s2 (''left'' @ ''_'' @ gesture_value THUMBS_UP) = Some ?hand"
    by simp
  have b: "gesture_callbacks ?s1 (''left'' @ ''_'' @ gesture_value THUMBS_UP) = None"
    "gesture_callbacks ?s1 (action ?c) = Some ?act"
    by (simp_all add: mk_command_def)
  have c: "gesture_callbacks (init_controller ([] :: string list)) (''left'' @ ''_'' @ gesture_value THUMBS_UP)
      = None"
    "gesture_callbacks (init_controller ([] :: string list)) (action ?c) = None"
    by (simp_all add: init_controller_def)
  have d: "resolve_command THUMBS_UP ''left'' = Some ?c"
    by (simp add: resolve_command_def tables_eval)
  have "world (dispatch_command ?c THUMBS_UP ''left'' ?s2) = outcome_world (?hand (world ?s2))"
    using a dispatch_lookup_order [of ?s2 "''left''" THUMBS_UP ?hand ?c] by blast
  then have e: "world (dispatch_command ?c THUMBS_UP ''left'' ?s2) = [''by hand key'']"
    by (simp add: init_controller_def)
  have "world (dispatch_command ?c THUMBS_UP ''left'' ?s1) = outcome_world (?act (world ?s1))"
    using b dispatch_lookup_order [of ?s1 "''left''" THUMBS_UP ?act ?c] by blast
  then have f: "world (dispatch_command ?c THUMBS_UP ''left'' ?s1) = [''by action'']"
    by (simp add: init_controller_def)
  have g: "dispatch_command ?c THUMBS_UP ''left'' (init_controller ([] :: string list)) = init_controller ([] :: string list)"
    using c dispatch_lookup_order [of "init_controller ([] :: string list)" "''left''" THUMBS_UP ?act ?c]
    by blast
  show ?thesis
    using a d e f g by blast
qed

text \<open>
  The claim as stated has the hand-qualified key made of the hand side, a dot and the
  action. A callback registered under \<open>left.decrease_brightness\<close> is never found: with
  the action key registered as well the action callback runs, and alone nothing runs.
\<close>

theorem dotted_action_key_counterexample:
  "resolve_command THUMBS_UP ''left''
     = Some (mk_command THUMBS_UP ''decrease_brightness'' ''left thumb up - dimmer'')
   \<and> world (execute_gesture THUMBS_UP ''left''
        ((init_controller [])\<lparr>gesture_callbacks :=
           [''left.decrease_brightness'' \<mapsto> (\<lambda>w. Returned (w @ [''by hand and action''])),
            ''decrease_brightness'' \<mapsto> (\<lambda>w. Returned (w @ [''by action'']))]\<rparr>))
     = [''by action'']
   \<and> world (execute_gesture THUMBS_UP ''left''
        ((init_controller [])\<lparr>gesture_callbacks :=
           [''left.decrease_brightness'' \<mapsto>
              (\<lambda>w. Returned (w @ [''by hand and action'']))]\<rparr>))
     = []"
  by (simp add: tracker_eval tables_eval)

section \<open>A callback that fails, a callback that is missing\<close>

lemma fire_resolved:
  "resolve_command g h = Some c \<Longrightarrow>
     fire g h s =
       (dispatch_command c g h (s\<lparr>trigger_trace := trigger_trace s @ [(g, h)]\<rparr>))
         \<lparr>executed_gestures := insert g (executed_gestures s)\<rparr>"
  by (simp add: fire_def execute_gesture_resolved dispatch_command_tracker Let_def)

lemma find_callback_trace:
  "find_callback (s\<lparr>trigger_trace := tr\<rparr>) c g h = find_callback s c g h"
  by (simp add: find_callback_def split: option.splits)

text \<open>
  Claim C8. Take a tick that fires: the tracked gesture \<open>g\<close>, a generic key not yet
  executed, is observed when the hold duration has passed, and \<open>c\<close> is its resolved
  command. If the callback found raises an exception, the tick still ends normally: the
  world is the one the single call left, the error is logged after the line of the call,
  and \<open>g\<close> is in the executed set. If no callback is registered, nothing is called or
  logged and \<open>g\<close> is in the executed set all the same. In every case a later tick that
  observes \<open>g\<close>, at any time and on any hand, changes nothing: no second attempt is made.
\<close>

theorem failed_dispatch_consumes_trigger:
  assumes "g \<in> dom gesture_commands" and "last_gesture s = g"
    and "g \<notin> executed_gestures s"
    and "gesture_hold_duration s \<le> t - gesture_start_time s"
    and "resolve_command g h = Some c"
  shows "(find_callback s c g h = Some cb \<and> cb (world s) = Raised e w \<longrightarrow>
            handle_gesture_logic t g h s =
              s\<lparr>executed_gestures := insert g (executed_gestures s), world := w,
                logged := logged s @ [Log_executing (description c), Log_callback_error e],
                trigger_trace := trigger_trace s @ [(g, h)]\<rparr>)
       \<and> (find_callback s c g h = None \<longrightarrow>
            handle_gesture_logic t g h s =
              s\<lparr>executed_gestures := insert g (executed_gestures s),
                trigger_trace := trigger_trace s @ [(g, h)]\<rparr>)
       \<and> g \<in> executed_gestures (handle_gesture_logic t g h s)
       \<and> handle_gesture_logic t' g h' (handle_gesture_logic t g h s)
            = handle_gesture_logic t g h s"
proof -
  have step: "handle_gesture_logic t g h s = fire g h s"
    using assms by (simp add: handle_same_fire)
  have fired: "g \<in> executed_gestures (fire g h s)" and same: "last_gesture (fire g h s) = g"
    using assms(2) by (simp_all add: fire_tracker)
  have again: "handle_gesture_logic t' g h' (fire g h s) = fire g h s"
    using same assms(1) fired by (rule handle_same_done)
  have raised: "fire g h s =
      s\<lparr>executed_gestures := insert g (executed_gestures s), world := w,
        logged := logged s @ [Log_executing (description c), Log_callback_error e],
        trigger_trace := trigger_trace s @ [(g, h)]\<rparr>"
    if "find_callback s c g h = Some cb" "cb (world s) = Raised e w"
    using that
    by (simp add: fire_resolved [OF assms(5)] dispatch_command_def find_callback_trace
        call_callback_def Let_def)
  have missing: "fire g h s =
      s\<lparr>executed_gestures := insert g (executed_gestures s),
        trigger_trace := trigger_trace s @ [(g, h)]\<rparr>"
    if "find_callback s c g h = None"
    using that
    by (simp add: fire_resolved [OF assms(5)] dispatch_command_def find_callback_trace)
  show ?thesis
    using raised missing fired again by (simp add: step)
qed


theorem failed_dispatch_consumes_trigger_witness:
  "FIST \<in> dom gesture_commands
   \<and> resolve_command FIST ''left''
       = Some (mk_command FIST ''close_all'' ''fist - turn all devices off'')
   \<and> handle_gesture_logic 2 FIST ''left''
        ((init_controller ([] :: string list))
           \<lparr>gesture_callbacks :=
              [''close_all'' \<mapsto> (\<lambda>w. Raised ''device offline'' (w @ [''tried'']))],
            last_gesture := FIST\<rparr>)
       = (init_controller [])
           \<lparr>gesture_callbacks :=
              [''close_all'' \<mapsto> (\<lambda>w. Raised ''device offline'' (w @ [''tried'']))],
            last_gesture := FIST, executed_gestures := {FIST}, world := [''tried''],
            logged := [Log_executing ''fist - turn all devices off'',
                       Log_callback_error ''device offline''],
            trigger_trace := [(FIST, ''left'')]\<rparr>
   \<and> handle_gesture_logic 2 FIST ''left''
        ((init_controller ([] :: string list))\<lparr>last_gesture := FIST\<rparr>)
       = (init_controller [])
           \<lparr>last_gesture := FIST, executed_gestures := {FIST},
            trigger_trace := [(FIST, ''left'')]\<rparr>
   \<and> handle_gesture_logic 3 FIST ''right''
        (handle_gesture_logic 2 FIST ''left''
           ((init_controller ([] :: string list))
              \<lparr>gesture_callbacks :=
                 [''close_all'' \<mapsto> (\<lambda>w. Raised ''device offline'' (w @ [''tried'']))],
               last_gesture := FIST\<rparr>))
       = handle_gesture_logic 2 FIST ''left''
           ((init_controller ([] :: string list))
              \<lparr>gesture_callbacks :=
                 [''close_all'' \<mapsto> (\<lambda>w. Raised ''device offline'' (w @ [''tried'']))],
               last_gesture := FIST\<rparr>)"
proof -
  let ?c = "mk_command FIST ''close_all'' ''fist - turn all devices off''"
  let ?cb = "\<lambda>w :: string list. (Raised ''device offline'' (w @ [''tried'']) :: string list outcome)"
  let ?s = "(init_controller ([] :: string list))
              \<lparr>gesture_callbacks := [''close_all'' \<mapsto> ?cb], last_gesture := FIST\<rparr>"
  let ?u = "(init_controller ([] :: string list))\<lparr>last_gesture := FIST\<rparr>"
  have a: "FIST \<in> dom gesture_commands"
    by (simp add: dom_gesture_commands)
  have r: "resolve_command FIST ''left'' = Some ?c"
    by (simp add: resolve_command_def tables_eval)
  have s1: "last_gesture ?s = FIST" and s2: "FIST \<notin> executed_gestures ?s"
    and s3: "gesture_hold_duration ?s \<le> 2 - gesture_start_time ?s"
    by (simp_all add: init_controller_def)
  have u1: "last_gesture ?u = FIST" and u2: "FIST \<notin> executed_gestures ?u"
    and u3: "gesture_hold_duration ?u \<le> 2 - gesture_start_time ?u"
    by (simp_all add: init_controller_def)
  have f: "find_callback ?s ?c FIST ''left'' = Some ?cb"
    by (simp add: find_callback_def mk_command_def init_controller_def)
  have w: "?cb (world ?s) = Raised ''device offline'' [''tried'']"
    by (simp add: init_controller_def)
  have n: "find_callback ?u ?c FIST ''left'' = None"
    by (simp add: find_callback_def mk_command_def init_controller_def)
  note T = failed_dispatch_consumes_trigger [OF a s1 s2 s3 r,
      of ?cb "''device offline''" "[''tried'']" 3 "''right''"]
  note U = failed_dispatch_consumes_trigger [OF a u1 u2 u3 r,
      of ?cb "''device offline''" "[''tried'']" 3 "''right''"]
  have c1: "handle_gesture_logic 2 FIST ''left'' ?s =
      ?s\<lparr>executed_gestures := insert FIST (executed_gestures ?s), world := [''tried''],
         logged := logged ?s @ [Log_executing (description ?c),
                    Log_callback_error ''device offline''],
         trigger_trace := trigger_trace ?s @ [(FIST, ''left'')]\<rparr>"
    using T f w by blast
  have c2: "handle_gesture_logic 2 FIST ''left'' ?u =
      ?u\<lparr>executed_gestures := insert FIST (executed_gestures ?u),
         trigger_trace := trigger_trace ?u @ [(FIST, ''left'')]\<rparr>"
    using U n by blast
  have c3: "handle_gesture_logic 3 FIST ''right'' (handle_gesture_logic 2 FIST ''left'' ?s)
      = handle_gesture_logic 2 FIST ''left'' ?s"
    using T by blast
  show ?thesis
    using a r c3 by (simp add: c1 c2) (simp add: init_controller_def mk_command_def)
qed


section \<open>Starting a session\<close>

text \<open>
  Claim C10, as amended. \<open>start\<close> on a running controller returns True and the
  controller as it was, without opening a camera. On a controller that is not running,
  when the capture object does not open, \<open>start\<close> returns False, \<open>running\<close> stays
  false, and nothing changes except that \<open>cap\<close> now holds that capture object and the
  failure is logged; when the constructor raises, only the log changes.
\<close>

theorem start_running_or_no_camera:
  "(running s \<longrightarrow> start open_camera i s = (True, s))
   \<and> (\<not> running s \<and> open_camera i = Inr c \<and> \<not> isOpened c \<longrightarrow>
        start open_camera i s =
          (False, s\<lparr>cap := Some c, logged := logged s @ [Log_camera_unavailable]\<rparr>)
        \<and> \<not> running (snd (start open_camera i s)))
   \<and> (\<not> running s \<and> open_camera i = Inl e \<longrightarrow>
        start open_camera i s = (False, s\<lparr>logged := logged s @ [Log_start_failed e]\<rparr>)
        \<and> \<not> running (snd (start open_camera i s)))"
  by (simp add: start_def Let_def)

theorem start_running_or_no_camera_witness:
  "running (snd (start (\<lambda>i. Inr \<lparr>isOpened = True, cap_settings = []\<rparr>) 0 (init_controller ())))
   \<and> start (\<lambda>i. Inr \<lparr>isOpened = False, cap_settings = []\<rparr>) 0
        (snd (start (\<lambda>i. Inr \<lparr>isOpened = True, cap_settings = []\<rparr>) 0 (init_controller ())))
       = (True, snd (start (\<lambda>i. Inr \<lparr>isOpened = True, cap_settings = []\<rparr>) 0
                       (init_controller ())))
   \<and> \<not> running (init_controller ())
   \<and> start (\<lambda>i. Inr \<lparr>isOpened = False, cap_settings = []\<rparr>) 0 (init_controller ())
       = (False, (init_controller ())
            \<lparr>cap := Some \<lparr>isOpened = False, cap_settings = []\<rparr>,
             logged := [Log_camera_unavailable]\<rparr>)
   \<and> start (\<lambda>i. Inl ''no backend'') 0 (init_controller ())
       = (False, (init_controller ())\<lparr>logged := [Log_start_failed ''no backend'']\<rparr>)"
proof -
  let ?on = "\<lambda>i :: int. (Inr \<lparr>isOpened = True, cap_settings = []\<rparr> :: string + VideoCapture)"
  let ?off = "\<lambda>i :: int. (Inr \<lparr>isOpened = False, cap_settings = []\<rparr> :: string + VideoCapture)"
  let ?bad = "\<lambda>i :: int. (Inl ''no backend'' :: string + VideoCapture)"
  let ?s = "snd (start ?on 0 (init_controller ()))"
  have a: "running ?s"
    by (simp add: start_def init_controller_def)
  have b: "\<not> running (init_controller ())"
    by (simp add: init_controller_def)
  have c: "start ?off 0 ?s = (True, ?s)"
    using a start_running_or_no_camera [of ?s ?off 0] by blast
  have d: "start ?off 0 (init_controller ()) =
      (False, (init_controller ())\<lparr>cap := Some \<lparr>isOpened = False, cap_settings = []\<rparr>,
         logged := logged (init_controller ()) @ [Log_camera_unavailable]\<rparr>)"
    using b start_running_or_no_camera [of "init_controller ()" ?off 0
        "\<lparr>isOpened = False, cap_settings = []\<rparr>"]
    by simp
  have e: "start ?bad 0 (init_controller ()) =
      (False, (init_controller ())\<lparr>logged := logged (init_controller ()) @
         [Log_start_failed ''no backend'']\<rparr>)"
    using b start_running_or_no_camera [of "init_controller ()" ?bad 0 _ "''no backend''"]
    by simp
  show ?thesis
    using a b c by (simp add: d e) (simp add: init_controller_def)
qed

text \<open>
  The claim as stated has the state unchanged when the camera cannot be opened. The
  capture object is stored at line 300, before it is tested: after the failed start
  \<open>cap\<close> holds it, where it was None before.
\<close>

theorem failed_start_keeps_capture_counterexample:
  "fst (start (\<lambda>i. Inr \<lparr>isOpened = False, cap_settings = []\<rparr>) 0 (init_controller ())) = False
   \<and> cap (init_controller ()) = None
   \<and> cap (snd (start (\<lambda>i. Inr \<lparr>isOpened = False, cap_settings = []\<rparr>) 0
        (init_controller ()))) = Some \<lparr>isOpened = False, cap_settings = []\<rparr>"
  by (simp add: start_def init_controller_def)


section \<open>Resolution and what a held thumb dispatches\<close>

lemma resolve_command_precedence:
  "resolve_command g h = resolve_by_precedence g h"
  by (cases "left_hand_commands g"; cases "right_hand_commands g";
      cases "gesture_commands g")
     (simp_all add: resolve_command_def resolve_by_precedence_def hand_table_def domIff)

lemma app_register_fields:
  "world (app_register_gesture_callbacks create s) = world s"
  "last_gesture (app_register_gesture_callbacks create s) = last_gesture s"
  "gesture_hold_duration (app_register_gesture_callbacks create s) = gesture_hold_duration s"
  "trigger_trace (app_register_gesture_callbacks create s) = trigger_trace s"
  "executed_gestures (app_register_gesture_callbacks create s) = executed_gestures s"
  by (simp_all add: app_register_gesture_callbacks_def register_gesture_callback_def
      tables_eval Let_def)

lemma app_register_thumbs:
  "gesture_callbacks (app_register_gesture_callbacks create s) ''left_thumbs_up''
     = Some (create ''decrease_brightness'')"
  "gesture_callbacks (app_register_gesture_callbacks create s) ''right_thumbs_up''
     = Some (create ''increase_brightness'')"
  by (simp_all add: app_register_gesture_callbacks_def register_gesture_callback_def
      tables_eval Let_def)


lemma hold_fires_fixed_hand:
  assumes "g \<in> dom gesture_commands" and "last_gesture s \<noteq> g"
    and "\<exists>t \<in> set ts. gesture_hold_duration s \<le> t - t0"
  shows "run_ticks (hold_ticks g ((t0, h) # map (\<lambda>t. (t, h)) ts)) s
         = fire g h (reset_hold t0 g s)"
proof -
  obtain t where
    "find (\<lambda>(t, h). gesture_hold_duration s \<le> t - t0) (map (\<lambda>t. (t, h)) ts) = Some (t, h)"
    using assms(3) find_fixed_hand_Some [of ts "\<lambda>t. gesture_hold_duration s \<le> t - t0" h]
    by blast
  then show ?thesis
    by (simp add: hold_start [OF assms(1,2)])
qed

lemma dispatch_by_hand_key:
  "gesture_callbacks s (h @ ''_'' @ gesture_value g) = Some cb
    \<Longrightarrow> world (dispatch_command c g h s) = outcome_world (cb (world s))"
  by (simp add: dispatch_command_def find_callback_def call_callback_def Let_def
      split: outcome.splits)

lemma resolve_thumbs:
  "resolve_command THUMBS_UP ''left''
     = Some (mk_command THUMBS_UP ''decrease_brightness'' ''left thumb up - dimmer'')"
  "resolve_command THUMBS_UP ''right''
     = Some (mk_command THUMBS_UP ''increase_brightness'' ''right thumb up - brighter'')"
  by (simp_all add: resolve_command_def tables_eval)

lemma resolve_open_palm:
  "resolve_command OPEN_PALM ''left''
     = Some (mk_command OPEN_PALM ''open_all'' ''open palm - turn all devices on'')"
  "resolve_command OPEN_PALM ''right''
     = Some (mk_command OPEN_PALM ''open_all'' ''open palm - turn all devices on'')"
  by (simp_all add: resolve_command_def tables_eval)

lemma thumb_hold_dispatch:
  assumes "last_gesture s \<noteq> THUMBS_UP"
    and "\<exists>t \<in> set ts. gesture_hold_duration s \<le> t - t0"
    and "resolve_command THUMBS_UP h = Some c"
  shows "run_ticks (hold_ticks THUMBS_UP ((t0, h) # map (\<lambda>t. (t, h)) ts)) s =
     (dispatch_command c THUMBS_UP h
        ((reset_hold t0 THUMBS_UP s)\<lparr>trigger_trace := trigger_trace s @ [(THUMBS_UP, h)]\<rparr>))
       \<lparr>executed_gestures := insert THUMBS_UP (executed_gestures s)\<rparr>"
proof -
  have "THUMBS_UP \<in> dom gesture_commands"
    by (simp add: dom_gesture_commands)
  then have "run_ticks (hold_ticks THUMBS_UP ((t0, h) # map (\<lambda>t. (t, h)) ts)) s
      = fire THUMBS_UP h (reset_hold t0 THUMBS_UP s)"
    using assms(1,2) by (rule hold_fires_fixed_hand)
  then show ?thesis
    by (simp add: fire_resolved [OF assms(3)] reset_hold_fields)
qed

lemma app_thumb_hold:
  assumes "\<exists>t \<in> set ts. 2 \<le> t - t0"
    and "resolve_command THUMBS_UP h = Some c"
    and "gesture_callbacks (app_register_gesture_callbacks create (init_controller w))
           (h @ ''_'' @ gesture_value THUMBS_UP) = Some cb"
  shows "trigger_trace (run_ticks (hold_ticks THUMBS_UP ((t0, h) # map (\<lambda>t. (t, h)) ts))
           (app_register_gesture_callbacks create (init_controller w))) = [(THUMBS_UP, h)]
       \<and> world (run_ticks (hold_ticks THUMBS_UP ((t0, h) # map (\<lambda>t. (t, h)) ts))
           (app_register_gesture_callbacks create (init_controller w)))
         = outcome_world (cb w)"
proof -
  define s where "s = app_register_gesture_callbacks create (init_controller w)"
  define s1 where
    "s1 = (reset_hold t0 THUMBS_UP s)\<lparr>trigger_trace := trigger_trace s @ [(THUMBS_UP, h)]\<rparr>"
  have a: "last_gesture s \<noteq> THUMBS_UP"
    by (simp add: s_def app_register_fields init_controller_def)
  have b: "\<exists>t \<in> set ts. gesture_hold_duration s \<le> t - t0"
    using assms(1) by (simp add: s_def app_register_fields init_controller_def)
  have run: "run_ticks (hold_ticks THUMBS_UP ((t0, h) # map (\<lambda>t. (t, h)) ts)) s =
      (dispatch_command c THUMBS_UP h s1)
        \<lparr>executed_gestures := insert THUMBS_UP (executed_gestures s)\<rparr>"
    unfolding s1_def using a b assms(2) by (rule thumb_hold_dispatch)
  have key: "gesture_callbacks s1 (h @ ''_'' @ gesture_value THUMBS_UP) = Some cb"
    using assms(3) by (simp add: s1_def s_def reset_hold_def)
  have w: "world s1 = w"
    by (simp add: s1_def s_def reset_hold_def app_register_fields init_controller_def)
  have tr: "trigger_trace s1 = [(THUMBS_UP, h)]"
    by (simp add: s1_def s_def app_register_fields init_controller_def)
  have "world (dispatch_command c THUMBS_UP h s1) = outcome_world (cb w)"
    using dispatch_by_hand_key [OF key, of c] by (simp add: w)
  moreover have "trigger_trace (dispatch_command c THUMBS_UP h s1) = [(THUMBS_UP, h)]"
    by (simp add: dispatch_command_tracker tr)
  ultimately show ?thesis
    unfolding s_def [symmetric] by (simp add: run)
qed

text \<open>
  Claim C2. For every gesture and hand type, \<open>_execute_gesture\<close> resolves the command
  in the order of the specification: the table of the hand if it has the gesture, else
  the generic table, else none; the result is one command or none. With the tables as
  configured OPEN_PALM resolves to \<open>open_all\<close> on both hands, THUMBS_UP to
  \<open>decrease_brightness\<close> on the left hand and to \<open>increase_brightness\<close> on the right
  hand. A hold of THUMBS_UP that reaches the hold duration ends in the state that
  dispatching the resolved command of that hand gives, and on a controller set up by the
  application (hold duration 2.0) a left-hand hold of at least 2.0 s makes one call, of
  the callback for \<open>decrease_brightness\<close>, and a right-hand hold one call, of the
  callback for \<open>increase_brightness\<close>.
\<close>

theorem resolution_and_thumb_dispatch:
  "resolve_command g h = resolve_by_precedence g h
   \<and> map_option action (resolve_command OPEN_PALM ''left'') = Some ''open_all''
   \<and> map_option action (resolve_command OPEN_PALM ''right'') = Some ''open_all''
   \<and> map_option action (resolve_command THUMBS_UP ''left'') = Some ''decrease_brightness''
   \<and> map_option action (resolve_command THUMBS_UP ''right'') = Some ''increase_brightness''
   \<and> (last_gesture s \<noteq> THUMBS_UP \<and> (\<exists>t \<in> set ts. gesture_hold_duration s \<le> t - t0)
        \<and> resolve_command THUMBS_UP h = Some c \<longrightarrow>
      run_ticks (hold_ticks THUMBS_UP ((t0, h) # map (\<lambda>t. (t, h)) ts)) s =
        (dispatch_command c THUMBS_UP h
           ((reset_hold t0 THUMBS_UP s)
              \<lparr>trigger_trace := trigger_trace s @ [(THUMBS_UP, h)]\<rparr>))
          \<lparr>executed_gestures := insert THUMBS_UP (executed_gestures s)\<rparr>)
   \<and> ((\<exists>t \<in> set ts. 2 \<le> t - t0) \<longrightarrow>
      trigger_trace (run_ticks
          (hold_ticks THUMBS_UP ((t0, ''left'') # map (\<lambda>t. (t, ''left'')) ts))
          (app_register_gesture_callbacks create (init_controller w)))
        = [(THUMBS_UP, ''left'')]
      \<and> world (run_ticks
          (hold_ticks THUMBS_UP ((t0, ''left'') # map (\<lambda>t. (t, ''left'')) ts))
          (app_register_gesture_callbacks create (init_controller w)))
        = outcome_world (create ''decrease_brightness'' w)
      \<and> trigger_trace (run_ticks
          (hold_ticks THUMBS_UP ((t0, ''right'') # map (\<lambda>t. (t, ''right'')) ts))
          (app_register_gesture_callbacks create (init_controller w)))
        = [(THUMBS_UP, ''right'')]
      \<and> world (run_ticks
          (hold_ticks THUMBS_UP ((t0, ''right'') # map (\<lambda>t. (t, ''right'')) ts))
          (app_register_gesture_callbacks create (init_controller w)))
        = outcome_world (create ''increase_brightness'' w))"
proof -
  have left: "gesture_callbacks (app_register_gesture_callbacks create (init_controller w))
      (''left'' @ ''_'' @ gesture_value THUMBS_UP) = Some (create ''decrease_brightness'')"
    and right: "gesture_callbacks (app_register_gesture_callbacks create (init_controller w))
      (''right'' @ ''_'' @ gesture_value THUMBS_UP) = Some (create ''increase_brightness'')"
    using app_register_thumbs [of create "init_controller w"] by simp_all
  have order: "resolve_command g h = resolve_by_precedence g h"
    by (rule resolve_command_precedence)
  have actions:
    "map_option action (resolve_command OPEN_PALM ''left'') = Some ''open_all''"
    "map_option action (resolve_command OPEN_PALM ''right'') = Some ''open_all''"
    "map_option action (resolve_command THUMBS_UP ''left'') = Some ''decrease_brightness''"
    "map_option action (resolve_command THUMBS_UP ''right'') = Some ''increase_brightness''"
    by (simp_all add: resolve_thumbs resolve_open_palm mk_command_def)
  show ?thesis
    using order actions thumb_hold_dispatch [of s ts t0 h c]
      app_thumb_hold [OF _ resolve_thumbs(1) left, of ts t0]
      app_thumb_hold [OF _ resolve_thumbs(2) right, of ts t0]
    by blast
qed


theorem resolution_and_thumb_dispatch_witness:
  "(\<exists>t \<in> set [1, 2 :: real]. 2 \<le> t - 0)
   \<and> world (run_ticks
        (hold_ticks THUMBS_UP ((0, ''left'') # map (\<lambda>t. (t, ''left'')) [1, 2]))
        (app_register_gesture_callbacks (\<lambda>a w. Returned (w @ [a]))
           (init_controller ([] :: string list)))) = [''decrease_brightness'']
   \<and> world (run_ticks
        (hold_ticks THUMBS_UP ((0, ''right'') # map (\<lambda>t. (t, ''right'')) [1, 2]))
        (app_register_gesture_callbacks (\<lambda>a w. Returned (w @ [a]))
           (init_controller ([] :: string list)))) = [''increase_brightness'']
   \<and> trigger_trace (run_ticks
        (hold_ticks THUMBS_UP ((0, ''left'') # map (\<lambda>t. (t, ''left'')) [1, 2]))
        (app_register_gesture_callbacks (\<lambda>a w. Returned (w @ [a]))
           (init_controller ([] :: string list)))) = [(THUMBS_UP, ''left'')]
   \<and> last_gesture (init_controller ()) \<noteq> THUMBS_UP
   \<and> (\<exists>t \<in> set [1, 2 :: real]. gesture_hold_duration (init_controller ()) \<le> t - 0)
   \<and> resolve_command THUMBS_UP ''left''
       = Some (mk_command THUMBS_UP ''decrease_brightness'' ''left thumb up - dimmer'')
   \<and> run_ticks (hold_ticks THUMBS_UP ((0, ''left'') # map (\<lambda>t. (t, ''left'')) [1, 2]))
        (init_controller ())
       = (init_controller ())
           \<lparr>last_gesture := THUMBS_UP, executed_gestures := {THUMBS_UP},
            trigger_trace := [(THUMBS_UP, ''left'')]\<rparr>"
proof -
  let ?create = "\<lambda>(a :: string) (w :: string list). (Returned (w @ [a]) :: string list outcome)"
  let ?c = "mk_command THUMBS_UP ''decrease_brightness'' ''left thumb up - dimmer''"
  have a: "\<exists>t \<in> set [1, 2 :: real]. 2 \<le> t - 0"
    by simp
  have b: "last_gesture (init_controller ()) \<noteq> THUMBS_UP"
    and c: "\<exists>t \<in> set [1, 2 :: real]. gesture_hold_duration (init_controller ()) \<le> t - 0"
    by (simp_all add: init_controller_def)
  note r = resolve_thumbs(1)
  note T = resolution_and_thumb_dispatch [of THUMBS_UP "''left''" "init_controller ()"
      "[1, 2]" 0 ?c ?create "[]"]
  have d: "run_ticks (hold_ticks THUMBS_UP ((0, ''left'') # map (\<lambda>t. (t, ''left'')) [1, 2]))
        (init_controller ()) =
      (dispatch_command ?c THUMBS_UP ''left''
         ((reset_hold 0 THUMBS_UP (init_controller ()))
            \<lparr>trigger_trace := trigger_trace (init_controller ()) @ [(THUMBS_UP, ''left'')]\<rparr>))
        \<lparr>executed_gestures := insert THUMBS_UP (executed_gestures (init_controller ()))\<rparr>"
    using T b c r by blast
  have e: "trigger_trace (run_ticks
        (hold_ticks THUMBS_UP ((0, ''left'') # map (\<lambda>t. (t, ''left'')) [1, 2]))
        (app_register_gesture_callbacks ?create (init_controller []))) = [(THUMBS_UP, ''left'')]"
    and f: "world (run_ticks
        (hold_ticks THUMBS_UP ((0, ''left'') # map (\<lambda>t. (t, ''left'')) [1, 2]))
        (app_register_gesture_callbacks ?create (init_controller [])))
        = outcome_world (?create ''decrease_brightness'' [])"
    and g: "world (run_ticks
        (hold_ticks THUMBS_UP ((0, ''right'') # map (\<lambda>t. (t, ''right'')) [1, 2]))
        (app_register_gesture_callbacks ?create (init_controller [])))
        = outcome_world (?create ''increase_brightness'' [])"
    using T a by blast+
  have f': "world (run_ticks
        (hold_ticks THUMBS_UP ((0, ''left'') # map (\<lambda>t. (t, ''left'')) [1, 2]))
        (app_register_gesture_callbacks ?create (init_controller [])))
        = [''decrease_brightness'']"
    using f by simp
  have g': "world (run_ticks
        (hold_ticks THUMBS_UP ((0, ''right'') # map (\<lambda>t. (t, ''right'')) [1, 2]))
        (app_register_gesture_callbacks ?create (init_controller [])))
        = [''increase_brightness'']"
    using g by simp
  have d': "run_ticks (hold_ticks THUMBS_UP ((0, ''left'') # map (\<lambda>t. (t, ''left'')) [1, 2]))
        (init_controller ())
       = (init_controller ())
           \<lparr>last_gesture := THUMBS_UP, executed_gestures := {THUMBS_UP},
            trigger_trace := [(THUMBS_UP, ''left'')]\<rparr>"
    unfolding d
    by (simp add: dispatch_command_def find_callback_def reset_hold_def init_controller_def
        mk_command_def)
  show ?thesis
    using a b c r e f' g' d' by blast
qed

section \<open>A held gesture of the hand tables\<close>

lemma app_register_three_fingers:
  "gesture_callbacks (app_register_gesture_callbacks create s) ''left_three_fingers''
     = Some (create ''decrease_color_temp'')"
  by (simp add: app_register_gesture_callbacks_def register_gesture_callback_def
      tables_eval Let_def)

text \<open>
  Claim C1 has every gesture other than NONE, held for at least the hold duration, emit
  exactly one trigger carrying the gesture and the hand. The code does not do this for a
  gesture that only the hand tables hold. THREE_FINGERS on the left hand resolves to the
  command \<open>decrease_color_temp\<close>, and the application registers a callback for it under
  \<open>left_three_fingers\<close>; yet on the controller the application sets up (hold duration
  2.0), ticks at the times 0, 1, 2 and 5 that all observe THREE_FINGERS on the left hand
  make no call of \<open>_execute_gesture\<close>, leave the world as it was and start no hold:
  the guard at line 418 looks at the generic table only.
\<close>

theorem three_fingers_left_never_fires:
  "THREE_FINGERS \<noteq> NONE
   \<and> map_option action (resolve_command THREE_FINGERS ''left'') = Some ''decrease_color_temp''
   \<and> gesture_callbacks
        (app_register_gesture_callbacks create (init_controller w))
        (''left'' @ ''_'' @ gesture_value THREE_FINGERS)
       = Some (create ''decrease_color_temp'')
   \<and> gesture_hold_duration (app_register_gesture_callbacks create (init_controller w)) \<le> 5 - 0
   \<and> trigger_trace (run_ticks
        (hold_ticks THREE_FINGERS ((0, ''left'') # map (\<lambda>t. (t, ''left'')) [1, 2, 5]))
        (app_register_gesture_callbacks create (init_controller w))) = []
   \<and> world (run_ticks
        (hold_ticks THREE_FINGERS ((0, ''left'') # map (\<lambda>t. (t, ''left'')) [1, 2, 5]))
        (app_register_gesture_callbacks create (init_controller w))) = w
   \<and> gesture_start_time (run_ticks
        (hold_ticks THREE_FINGERS ((0, ''left'') # map (\<lambda>t. (t, ''left'')) [1, 2, 5]))
        (app_register_gesture_callbacks create (init_controller w))) = 0
   \<and> last_gesture (run_ticks
        (hold_ticks THREE_FINGERS ((0, ''left'') # map (\<lambda>t. (t, ''left'')) [1, 2, 5]))
        (app_register_gesture_callbacks create (init_controller w))) = NONE"
proof -
  let ?s = "app_register_gesture_callbacks create (init_controller w)"
  let ?ths = "(0, ''left'') # map (\<lambda>t. (t, ''left'')) [1, 2, 5 :: real]"
  have "THREE_FINGERS \<notin> dom gesture_commands"
    by (simp add: dom_gesture_commands)
  moreover have "?ths \<noteq> []"
    by simp
  ultimately have run: "run_ticks (hold_ticks THREE_FINGERS ?ths) ?s = ?s\<lparr>last_gesture := NONE\<rparr>"
    by (rule other_ticks)
  have resolved: "map_option action (resolve_command THREE_FINGERS ''left'')
      = Some ''decrease_color_temp''"
    by (simp add: resolve_command_def tables_eval)
  have registered: "gesture_callbacks ?s (''left'' @ ''_'' @ gesture_value THREE_FINGERS)
      = Some (create ''decrease_color_temp'')"
    using app_register_three_fingers [of create "init_controller w"] by simp
  have fields: "gesture_hold_duration ?s \<le> 5 - 0" "trigger_trace ?s = []" "world ?s = w"
    by (simp_all add: app_register_fields init_controller_def)
  have started: "gesture_start_time ?s = 0"
    by (simp add: app_register_gesture_callbacks_def register_gesture_callback_def
        tables_eval Let_def init_controller_def)
  show ?thesis
    unfolding run using resolved registered fields started by simp
qed

end
